theory Spec2Isabelle
  imports Complex_Main "HOL-Library.Code_Target_Nat"
begin

section \<open>Python strings\<close>

text \<open>
  Commands, tokens and the entry buffer are Python strings. They are modelled as
  \<open>string\<close>; the two commands outside ASCII (the plus-minus sign and the erase-to-the-left
  sign) stand as their UTF-8 bytes. Every string the engine slices or measures consists of
  ASCII characters only, so lengths agree.
\<close>

text \<open>\<open>a in b\<close> on two strings: \<open>a\<close> occurs in \<open>b\<close> as a contiguous piece.\<close>

fun str_in :: "string \<Rightarrow> string \<Rightarrow> bool" where
  "str_in a [] = (a = [])"
| "str_in a (c # cs) = (take (length a) (c # cs) = a \<or> str_in a cs)"

text \<open>\<open>s.rstrip(c)\<close> for a single character \<open>c\<close>.\<close>

definition rstrip :: "char \<Rightarrow> string \<Rightarrow> string" where
  "rstrip c s = rev (dropWhile (\<lambda>x. x = c) (rev s))"

text \<open>\<open>sep.join(ts)\<close>.\<close>

fun join :: "string \<Rightarrow> string list \<Rightarrow> string" where
  "join sep [] = []"
| "join sep [t] = t"
| "join sep (t # u # ts) = t @ sep @ join sep (u # ts)"

text \<open>\<open>s.strip()\<close>, for the ASCII white space.\<close>

definition is_space :: "char \<Rightarrow> bool" where
  "is_space c = (c \<in> set [CHR '' '', CHR 0x09, CHR 0x0A, CHR 0x0B, CHR 0x0C, CHR 0x0D,
                            CHR 0x1C, CHR 0x1D, CHR 0x1E, CHR 0x1F])"

definition strip :: "string \<Rightarrow> string" where
  "strip s = rev (dropWhile is_space (rev (dropWhile is_space s)))"

definition is_digit :: "char \<Rightarrow> bool" where
  "is_digit c = (c \<in> set ''0123456789'')"

text \<open>The value of a digit is its place in \<open>0123456789\<close>.\<close>

definition digit_val :: "char \<Rightarrow> nat" where
  "digit_val c = length (takeWhile (\<lambda>d. d \<noteq> c) ''0123456789'')"

definition digit_char :: "nat \<Rightarrow> char" where
  "digit_char n = ''0123456789'' ! (n mod 10)"

text \<open>\<open>int(s)\<close> on a string of digits, and \<open>str(n)\<close> on a natural number.\<close>

definition int_of_str :: "string \<Rightarrow> nat" where
  "int_of_str s = foldl (\<lambda>n c. 10 * n + digit_val c) 0 s"

fun str_of_nat :: "nat \<Rightarrow> string" where
  "str_of_nat n = (if n < 10 then [digit_char n] else str_of_nat (n div 10) @ [digit_char n])"

declare str_of_nat.simps [simp del]

section \<open>Decimal numbers\<close>

text \<open>
  A finite \<open>Decimal\<close> is a sign, a coefficient and an exponent: the value of
  \<open>Decimal s c e\<close> is \<open>(-1)^s * c * 10^e\<close>. The context is the module's, with
  \<open>prec = 28\<close> and rounding half-even. The exponent is unbounded here (the library's
  limits lie beyond numbers of a million digits), and infinities and NaNs are left out: with
  the default traps no operation on finite operands returns one.
\<close>

datatype decimal = Decimal (dsign: bool) (dint: nat) (dexp: int)

definition prec :: nat where
  "prec = 28"

text \<open>\<open>len(str(n))\<close>.\<close>

fun ndigits :: "nat \<Rightarrow> nat" where
  "ndigits n = (if n < 10 then 1 else Suc (ndigits (n div 10)))"

declare ndigits.simps [simp del]

text \<open>
  Rounding a result to the context precision: the digits beyond the 28th are dropped,
  the rest goes up when the dropped part is above one half, or is one half and the last
  kept digit is odd. A carry out of the 28 digits drops one more digit.
\<close>

definition fix_prec :: "decimal \<Rightarrow> decimal" where
  "fix_prec d =
     (let c = dint d; n = ndigits c in
      if n \<le> prec then d
      else
        let k = n - prec;
            q = c div 10 ^ k;
            r = c mod 10 ^ k;
            q' = (if 2 * r > 10 ^ k \<or> (2 * r = 10 ^ k \<and> odd q) then q + 1 else q)
        in if ndigits q' > prec then Decimal (dsign d) (q' div 10) (dexp d + int k + 1)
           else Decimal (dsign d) q' (dexp d + int k))"

definition is_zero :: "decimal \<Rightarrow> bool" where
  "is_zero d = (dint d = 0)"

text \<open>The signed coefficient of \<open>d\<close> at the exponent \<open>e \<le> dexp d\<close>.\<close>

definition scaled :: "decimal \<Rightarrow> int \<Rightarrow> int" where
  "scaled d e = (if dsign d then - 1 else 1) * int (dint d) * 10 ^ nat (dexp d - e)"

text \<open>
  Addition: the exact sum at the smaller exponent, then rounded. A zero sum is negative
  only when both operands are. (Where the library pads a sum with a zero operand with
  further zeros, the value is the same.)
\<close>

definition dec_add :: "decimal \<Rightarrow> decimal \<Rightarrow> decimal" where
  "dec_add a b =
     (let e = min (dexp a) (dexp b);
          v = scaled a e + scaled b e
      in fix_prec (Decimal (if v = 0 then dsign a \<and> dsign b else v < 0) (nat \<bar>v\<bar>) e))"

definition copy_negate :: "decimal \<Rightarrow> decimal" where
  "copy_negate d = Decimal (\<not> dsign d) (dint d) (dexp d)"

definition dec_sub :: "decimal \<Rightarrow> decimal \<Rightarrow> decimal" where
  "dec_sub a b = dec_add a (copy_negate b)"

definition dec_mul :: "decimal \<Rightarrow> decimal \<Rightarrow> decimal" where
  "dec_mul a b = fix_prec (Decimal (dsign a \<noteq> dsign b) (dint a * dint b) (dexp a + dexp b))"

text \<open>Unary minus: the zero loses its sign, and the result is rounded like any other.\<close>

definition dec_neg :: "decimal \<Rightarrow> decimal" where
  "dec_neg d = fix_prec (if is_zero d then Decimal False (dint d) (dexp d) else copy_negate d)"

text \<open>
  Division by a non-zero divisor. The quotient is computed to \<open>prec + 1\<close> digits; when
  the division leaves a remainder, a last digit 0 or 5 is bumped so that the final rounding
  sees an inexact tail; an exact quotient sheds its trailing zeros down to the ideal exponent.
\<close>

function reduce_exact :: "nat \<Rightarrow> int \<Rightarrow> int \<Rightarrow> nat \<times> int" where
  "reduce_exact coeff e ideal =
     (if e < ideal \<and> coeff mod 10 = 0 then reduce_exact (coeff div 10) (e + 1) ideal
      else (coeff, e))"
  by pat_completeness auto
termination
  by (relation "measure (\<lambda>(coeff, e, ideal). nat (ideal - e))") auto

declare reduce_exact.simps [simp del]

definition dec_div :: "decimal \<Rightarrow> decimal \<Rightarrow> decimal" where
  "dec_div a b =
     (let s = (dsign a \<noteq> dsign b) in
      if is_zero a then fix_prec (Decimal s 0 (dexp a - dexp b))
      else
        let shift = int (ndigits (dint b)) - int (ndigits (dint a)) + int prec + 1;
            e = dexp a - dexp b - shift;
            n = (if shift \<ge> 0 then dint a * 10 ^ nat shift else dint a);
            m = (if shift \<ge> 0 then dint b else dint b * 10 ^ nat (- shift));
            coeff = n div m;
            remainder = n mod m
        in if remainder \<noteq> 0
           then fix_prec (Decimal s (if coeff mod 5 = 0 then coeff + 1 else coeff) e)
           else (case reduce_exact coeff e (dexp a - dexp b) of
                   (coeff', e') \<Rightarrow> fix_prec (Decimal s coeff' e')))"

text \<open>
  \<open>Decimal(text)\<close> on a plain literal: an optional sign, digits with at most one point,
  at least one digit. \<open>None\<close> is \<open>InvalidOperation\<close>. The constructor does not round.
  Literals with an exponent part, blanks, underscores or the names of special values are
  outside this model; the engine never builds one.
\<close>

definition unsigned_literal :: "string \<Rightarrow> decimal option" where
  "unsigned_literal s =
     (let intpart = takeWhile is_digit s;
          finish = (\<lambda>fracpart.
            if list_all is_digit fracpart \<and> intpart @ fracpart \<noteq> []
            then Some (Decimal False (int_of_str (intpart @ fracpart)) (- int (length fracpart)))
            else None)
      in case dropWhile is_digit s of
           [] \<Rightarrow> finish []
         | c # fracpart \<Rightarrow> if c = CHR ''.'' then finish fracpart else None)"

definition Decimal_of_str :: "string \<Rightarrow> decimal option" where
  "Decimal_of_str s =
     (case s of
        [] \<Rightarrow> None
      | c # cs \<Rightarrow>
          if c = CHR ''-'' then map_option copy_negate (unsigned_literal cs)
          else if c = CHR ''+'' then unsigned_literal cs
          else unsigned_literal s)"

text \<open>
  \<open>value.normalize()\<close>: rounded to the context, a zero becomes \<open>0\<close> with exponent 0,
  anything else sheds the trailing zeros of its coefficient.
\<close>

function strip_zeros :: "nat \<Rightarrow> int \<Rightarrow> nat \<times> int" where
  "strip_zeros c e = (if c \<noteq> 0 \<and> c mod 10 = 0 then strip_zeros (c div 10) (e + 1) else (c, e))"
  by pat_completeness auto
termination
  by (relation "measure (\<lambda>(c, e). c)") auto

declare strip_zeros.simps [simp del]

definition normalize_dec :: "decimal \<Rightarrow> decimal" where
  "normalize_dec d =
     (let dup = fix_prec d in
      if is_zero dup then Decimal (dsign dup) 0 0
      else (case strip_zeros (dint dup) (dexp dup) of (c, e) \<Rightarrow> Decimal (dsign dup) c e))"

text \<open>
  \<open>format(d, "f")\<close>: the digits of the coefficient with the point placed by the
  exponent, never an exponent part; a negative zero keeps its sign.
\<close>

definition format_f :: "decimal \<Rightarrow> string" where
  "format_f d =
     (let digits = str_of_nat (dint d);
          dotplace = dexp d + int (length digits);
          intpart =
            (if dotplace < 0 then ''0''
             else if dotplace > int (length digits)
               then digits @ replicate (nat (dotplace - int (length digits))) CHR ''0''
             else if take (nat dotplace) digits = [] then ''0''
             else take (nat dotplace) digits);
          fracpart =
            (if dotplace < 0 then replicate (nat (- dotplace)) CHR ''0'' @ digits
             else if dotplace > int (length digits) then []
             else drop (nat dotplace) digits)
      in (if dsign d then ''-'' else []) @ intpart
         @ (if fracpart = [] then [] else CHR ''.'' # fracpart))"

text \<open>
  \<open>_format_decimal\<close>: the normalized value in plain notation, without the zeros and the
  point a fraction ends with, and with a bare or negative zero written \<open>0\<close>.
\<close>

definition format_decimal :: "decimal \<Rightarrow> string" where
  "format_decimal v =
     (let text0 = format_f (normalize_dec v);
          text1 = (if CHR ''.'' \<in> set text0 then rstrip CHR ''.'' (rstrip CHR ''0'' text0)
                   else text0)
      in if text1 = [] \<or> text1 = ''-'' then ''0''
         else if text1 = ''-0'' then ''0''
         else text1)"

section \<open>Exceptions\<close>

text \<open>
  The exceptions the module can meet. \<open>Unmodelled\<close> marks an expression with characters
  the model of the Python parser below does not read.
\<close>

datatype exn = ValueError | ZeroDivisionError | InvalidOperation | SyntaxError | Unmodelled

text \<open>\<open>_sanitize_number\<close>: a text the constructor rejects is a \<open>ValueError\<close>.\<close>

definition sanitize_number :: "string \<Rightarrow> exn + string" where
  "sanitize_number text =
     (case Decimal_of_str text of
        None \<Rightarrow> Inl ValueError
      | Some v \<Rightarrow> Inr (format_decimal v))"

section \<open>The Python expression parser\<close>

text \<open>
  \<open>ast.parse(expression, mode="eval")\<close>, on the strings made of digits, points, the four
  operator characters and blanks: these are the characters of the expressions the engine
  builds. The tokens are the numbers (an integer, a float or the ellipsis), the four
  operators and the two double operators; the grammar is Python's: a sum of terms, a term
  a product of factors, a factor a signed power.
\<close>

datatype pyconst = IntConst nat | FloatConst string | EllipsisConst

datatype pytok = NUMBER pyconst | PLUS | MINUS | STAR | SLASH | DOUBLESTAR | DOUBLESLASH

definition number_char :: "char \<Rightarrow> bool" where
  "number_char c = (is_digit c \<or> c = CHR ''.'')"

text \<open>
  A maximal run of digits and points is one token when it is a number or the ellipsis.
  Any other run splits into tokens that no expression has side by side. An integer
  literal has no leading zero unless it is all zeros.
\<close>

definition number_token :: "string \<Rightarrow> pytok option" where
  "number_token run =
     (if run = ''...'' then Some (NUMBER EllipsisConst)
      else if \<not> list_ex is_digit run \<or> length (filter (\<lambda>c. c = CHR ''.'') run) > 1 then None
      else if CHR ''.'' \<in> set run then Some (NUMBER (FloatConst run))
      else if take 1 run = ''0'' \<and> \<not> list_all (\<lambda>c. c = CHR ''0'') run then None
      else Some (NUMBER (IntConst (int_of_str run))))"

definition tok_cons :: "pytok \<Rightarrow> exn + pytok list \<Rightarrow> exn + pytok list" where
  "tok_cons t r = (case r of Inl e \<Rightarrow> Inl e | Inr ts \<Rightarrow> Inr (t # ts))"

function tokenize :: "string \<Rightarrow> exn + pytok list" where
  "tokenize [] = Inr []"
| "tokenize (c # cs) =
     (if c = CHR '' '' then tokenize cs
      else if number_char c then
        (case number_token (c # takeWhile number_char cs) of
           None \<Rightarrow> Inl SyntaxError
         | Some t \<Rightarrow> tok_cons t (tokenize (dropWhile number_char cs)))
      else if c = CHR ''+'' then tok_cons PLUS (tokenize cs)
      else if c = CHR ''-'' then tok_cons MINUS (tokenize cs)
      else if c = CHR ''*'' then
        (if take 1 cs = ''*'' then tok_cons DOUBLESTAR (tokenize (drop 1 cs))
         else tok_cons STAR (tokenize cs))
      else if c = CHR ''/'' then
        (if take 1 cs = ''/'' then tok_cons DOUBLESLASH (tokenize (drop 1 cs))
         else tok_cons SLASH (tokenize cs))
      else Inl Unmodelled)"
  by pat_completeness auto
termination
  by (relation "measure length") (auto intro: le_imp_less_Suc length_dropWhile_le)

declare tokenize.simps(2) [simp del]

datatype operator = Add | Sub | Mult | Div | FloorDiv | Pow

datatype unaryop = UAdd | USub

datatype expr = BinOp expr operator expr | UnaryOp unaryop expr | Constant pyconst

text \<open>Every parsing function returns the tree and the tokens left; \<open>None\<close> is a syntax error.\<close>

fun parse_factor :: "pytok list \<Rightarrow> (expr \<times> pytok list) option" where
  "parse_factor (PLUS # ts) = map_option (\<lambda>(e, r). (UnaryOp UAdd e, r)) (parse_factor ts)"
| "parse_factor (MINUS # ts) = map_option (\<lambda>(e, r). (UnaryOp USub e, r)) (parse_factor ts)"
| "parse_factor (NUMBER c # DOUBLESTAR # ts) =
     map_option (\<lambda>(e, r). (BinOp (Constant c) Pow e, r)) (parse_factor ts)"
| "parse_factor (NUMBER c # ts) = Some (Constant c, ts)"
| "parse_factor ts = None"

lemma parse_factor_length:
  "parse_factor ts = Some (e, r) \<Longrightarrow> length r < length ts"
  by (induction ts arbitrary: e r rule: parse_factor.induct) (auto split: prod.splits)

function parse_term_rest :: "expr \<Rightarrow> pytok list \<Rightarrow> (expr \<times> pytok list) option" where
  "parse_term_rest l (STAR # ts) =
     (case parse_factor ts of None \<Rightarrow> None
      | Some (e, r) \<Rightarrow> parse_term_rest (BinOp l Mult e) r)"
| "parse_term_rest l (SLASH # ts) =
     (case parse_factor ts of None \<Rightarrow> None
      | Some (e, r) \<Rightarrow> parse_term_rest (BinOp l Div e) r)"
| "parse_term_rest l (DOUBLESLASH # ts) =
     (case parse_factor ts of None \<Rightarrow> None
      | Some (e, r) \<Rightarrow> parse_term_rest (BinOp l FloorDiv e) r)"
| "parse_term_rest l [] = Some (l, [])"
| "parse_term_rest l (NUMBER c # ts) = Some (l, NUMBER c # ts)"
| "parse_term_rest l (PLUS # ts) = Some (l, PLUS # ts)"
| "parse_term_rest l (MINUS # ts) = Some (l, MINUS # ts)"
| "parse_term_rest l (DOUBLESTAR # ts) = Some (l, DOUBLESTAR # ts)"
  by pat_completeness auto
termination
  by (relation "measure (\<lambda>(l, ts). length ts)") (auto dest: parse_factor_length)

lemma parse_term_rest_length:
  "parse_term_rest l ts = Some (e, r) \<Longrightarrow> length r \<le> length ts"
  by (induction l ts arbitrary: e r rule: parse_term_rest.induct)
     (fastforce split: option.splits dest: parse_factor_length)+

definition parse_term :: "pytok list \<Rightarrow> (expr \<times> pytok list) option" where
  "parse_term ts =
     (case parse_factor ts of None \<Rightarrow> None | Some (e, r) \<Rightarrow> parse_term_rest e r)"

lemma parse_term_length:
  "parse_term ts = Some (e, r) \<Longrightarrow> length r < length ts"
  unfolding parse_term_def
  by (fastforce split: option.splits dest: parse_factor_length parse_term_rest_length)

function parse_sum_rest :: "expr \<Rightarrow> pytok list \<Rightarrow> (expr \<times> pytok list) option" where
  "parse_sum_rest l (PLUS # ts) =
     (case parse_term ts of None \<Rightarrow> None
      | Some (e, r) \<Rightarrow> parse_sum_rest (BinOp l Add e) r)"
| "parse_sum_rest l (MINUS # ts) =
     (case parse_term ts of None \<Rightarrow> None
      | Some (e, r) \<Rightarrow> parse_sum_rest (BinOp l Sub e) r)"
| "parse_sum_rest l [] = Some (l, [])"
| "parse_sum_rest l (NUMBER c # ts) = Some (l, NUMBER c # ts)"
| "parse_sum_rest l (STAR # ts) = Some (l, STAR # ts)"
| "parse_sum_rest l (SLASH # ts) = Some (l, SLASH # ts)"
| "parse_sum_rest l (DOUBLESTAR # ts) = Some (l, DOUBLESTAR # ts)"
| "parse_sum_rest l (DOUBLESLASH # ts) = Some (l, DOUBLESLASH # ts)"
  by pat_completeness auto
termination
  by (relation "measure (\<lambda>(l, ts). length ts)") (auto dest: parse_term_length)

definition parse_sum :: "pytok list \<Rightarrow> (expr \<times> pytok list) option" where
  "parse_sum ts =
     (case parse_term ts of None \<Rightarrow> None | Some (e, r) \<Rightarrow> parse_sum_rest e r)"

text \<open>The whole input is one expression: tokens left over are a syntax error.\<close>

definition ast_parse :: "string \<Rightarrow> exn + expr" where
  "ast_parse s =
     (case tokenize s of
        Inl e \<Rightarrow> Inl e
      | Inr ts \<Rightarrow>
          (case parse_sum ts of
             None \<Rightarrow> Inl SyntaxError
           | Some (e, r) \<Rightarrow> if r = [] then Inr e else Inl SyntaxError))"

section \<open>The evaluator\<close>

text \<open>
  \<open>_SafeEvaluator.visit\<close>. Both operands are visited before the operator is looked at.
  An integer constant becomes its decimal exactly. A float constant reaches the evaluator
  as a binary float and is converted through its \<open>str\<close>; binary floating point is not
  part of this model, so the conversion of a float literal is the parameter \<open>fl\<close>, from
  the text of the literal to the decimal the evaluator gets.
\<close>

fun visit :: "(string \<Rightarrow> decimal) \<Rightarrow> expr \<Rightarrow> exn + decimal" where
  "visit fl (BinOp l op r) =
     (case visit fl l of
        Inl e \<Rightarrow> Inl e
      | Inr left \<Rightarrow>
          (case visit fl r of
             Inl e \<Rightarrow> Inl e
           | Inr right \<Rightarrow>
               (case op of
                  Add \<Rightarrow> Inr (dec_add left right)
                | Sub \<Rightarrow> Inr (dec_sub left right)
                | Mult \<Rightarrow> Inr (dec_mul left right)
                | Div \<Rightarrow> if is_zero right then Inl ZeroDivisionError
                         else Inr (dec_div left right)
                | FloorDiv \<Rightarrow> Inl ValueError
                | Pow \<Rightarrow> Inl ValueError)))"
| "visit fl (UnaryOp op e) =
     (case visit fl e of
        Inl x \<Rightarrow> Inl x
      | Inr operand \<Rightarrow>
          (case op of UAdd \<Rightarrow> Inr operand | USub \<Rightarrow> Inr (dec_neg operand)))"
| "visit fl (Constant c) =
     (case c of
        IntConst n \<Rightarrow> Inr (Decimal False n 0)
      | FloatConst text \<Rightarrow> Inr (fl text)
      | EllipsisConst \<Rightarrow> Inl ValueError)"

definition safe_calculate :: "(string \<Rightarrow> decimal) \<Rightarrow> string \<Rightarrow> exn + decimal" where
  "safe_calculate fl expression =
     (let expression' = strip expression in
      if expression' = [] then Inr (Decimal False 0 0)
      else (case ast_parse expression' of Inl e \<Rightarrow> Inl e | Inr tree \<Rightarrow> visit fl tree))"

section \<open>The calculator state\<close>

text \<open>
  The three messages \<open>_set_error\<close> is called with: that a number could not be parsed,
  that a division by zero was met, that the expression could not be parsed. Each is a
  non-empty string, so a set \<open>error\<close> is true in \<open>_reset_on_error\<close>.
\<close>

datatype message = NumberParseFailed | ZeroDivisionMessage | ExpressionParseFailed

record CalculatorState =
  tokens :: "string list"
  current :: string
  overwrite :: bool
  error :: "message option"

definition OPERATORS :: "string set" where
  "OPERATORS = {''+'', ''-'', ''*'', ''/''}"

definition initial_state :: CalculatorState where
  "initial_state = \<lparr>tokens = [], current = ''0'', overwrite = True, error = None\<rparr>"

definition expression_text :: "CalculatorState \<Rightarrow> string" where
  "expression_text st = join '' '' (tokens st)"

definition get_display :: "CalculatorState \<Rightarrow> string \<times> string \<times> message option" where
  "get_display st = (expression_text st, current st, error st)"

definition reset_on_error :: "CalculatorState \<Rightarrow> CalculatorState" where
  "reset_on_error st = (if error st \<noteq> None then initial_state else st)"

definition set_error :: "message \<Rightarrow> CalculatorState \<Rightarrow> CalculatorState" where
  "set_error m st = st\<lparr>error := Some m, tokens := [], current := ''0'', overwrite := True\<rparr>"

text \<open>
  The handlers mutate the engine's state. A handler that can let an exception escape
  returns the exception, if any, with the state the engine is left in.
\<close>

definition input_digit :: "string \<Rightarrow> CalculatorState \<Rightarrow> CalculatorState" where
  "input_digit digit st0 =
     (let st = reset_on_error st0 in
      if overwrite st then st\<lparr>current := digit, overwrite := False\<rparr>
      else if current st = ''0'' then st\<lparr>current := digit\<rparr>
      else st\<lparr>current := current st @ digit\<rparr>)"

definition input_decimal_point :: "CalculatorState \<Rightarrow> CalculatorState" where
  "input_decimal_point st0 =
     (let st = reset_on_error st0 in
      if overwrite st then st\<lparr>current := ''0.'', overwrite := False\<rparr>
      else if CHR ''.'' \<notin> set (current st) then st\<lparr>current := current st @ ''.''\<rparr>
      else st)"

text \<open>
  The placement of a value at the end of a token list: appended after an operator or to
  the empty list, written over a number. \<open>_commit_current\<close> and the evaluation list of
  \<open>_calculate_result\<close> both place the sanitized entry so.
\<close>

definition place_value :: "string \<Rightarrow> string list \<Rightarrow> string list" where
  "place_value v ts =
     (if ts \<noteq> [] then
        (if last ts \<in> OPERATORS then ts @ [v] else butlast ts @ [v])
      else ts @ [v])"

definition commit_current :: "CalculatorState \<Rightarrow> exn + CalculatorState" where
  "commit_current st =
     (case sanitize_number (current st) of
        Inl e \<Rightarrow> Inl e
      | Inr v \<Rightarrow> Inr (st\<lparr>tokens := place_value v (tokens st)\<rparr>))"

definition apply_operator :: "string \<Rightarrow> CalculatorState \<Rightarrow> exn option \<times> CalculatorState" where
  "apply_operator operator st0 =
     (let st = reset_on_error st0 in
      case commit_current st of
        Inl e \<Rightarrow> (Some e, st)
      | Inr st1 \<Rightarrow>
          (None,
           (if tokens st1 \<noteq> [] \<and> last (tokens st1) \<in> OPERATORS
            then st1\<lparr>tokens := butlast (tokens st1) @ [operator]\<rparr>
            else st1\<lparr>tokens := tokens st1 @ [operator]\<rparr>)
           \<lparr>overwrite := True\<rparr>))"

text \<open>
  The list \<open>_calculate_result\<close> evaluates, built from a non-empty copy of the tokens:
  \<open>Inl\<close> when the entry does not sanitize.
\<close>

definition evaluation_list :: "CalculatorState \<Rightarrow> exn + string list" where
  "evaluation_list st =
     (let ts = tokens st in
      if \<not> overwrite st \<or> (ts \<noteq> [] \<and> last ts \<in> OPERATORS) then
        (case sanitize_number (current st) of
           Inl e \<Rightarrow> Inl e
         | Inr current_value \<Rightarrow>
             Inr (if ts \<noteq> [] \<and> last ts \<in> OPERATORS then ts @ [current_value]
                  else butlast ts @ [current_value]))
      else if ts \<noteq> [] \<and> last ts \<in> OPERATORS then Inr (butlast ts)
      else Inr ts)"

definition calculate_result ::
  "(string \<Rightarrow> decimal) \<Rightarrow> CalculatorState \<Rightarrow> exn option \<times> CalculatorState" where
  "calculate_result fl st0 =
     (let st = reset_on_error st0 in
      if tokens st = [] then
        (case sanitize_number (current st) of
           Inl e \<Rightarrow> (None, set_error NumberParseFailed st)
         | Inr result \<Rightarrow> (None, st\<lparr>current := result, overwrite := True\<rparr>))
      else
        (case evaluation_list st of
           Inl e \<Rightarrow> (None, set_error NumberParseFailed st)
         | Inr ts \<Rightarrow>
             (case safe_calculate fl (join '' '' ts) of
                Inl ZeroDivisionError \<Rightarrow> (None, set_error ZeroDivisionMessage st)
              | Inl InvalidOperation \<Rightarrow> (None, set_error ExpressionParseFailed st)
              | Inl ValueError \<Rightarrow> (None, set_error ExpressionParseFailed st)
              | Inl SyntaxError \<Rightarrow> (Some SyntaxError, st)
              | Inl Unmodelled \<Rightarrow> (Some Unmodelled, st)
              | Inr result_decimal \<Rightarrow>
                  (None, st\<lparr>current := format_decimal result_decimal, tokens := [],
                              overwrite := True, error := None\<rparr>))))"

definition clear_all :: "CalculatorState \<Rightarrow> CalculatorState" where
  "clear_all st = initial_state"

definition clear_entry :: "CalculatorState \<Rightarrow> CalculatorState" where
  "clear_entry st0 = (reset_on_error st0)\<lparr>current := ''0'', overwrite := True\<rparr>"

definition toggle_sign :: "CalculatorState \<Rightarrow> CalculatorState" where
  "toggle_sign st0 =
     (let st = reset_on_error st0 in
      case Decimal_of_str (current st) of
        None \<Rightarrow> set_error NumberParseFailed st
      | Some d \<Rightarrow>
          st\<lparr>current := format_decimal (dec_mul d (Decimal True 1 0)), overwrite := False\<rparr>)"

definition percent :: "CalculatorState \<Rightarrow> CalculatorState" where
  "percent st0 =
     (let st = reset_on_error st0 in
      case Decimal_of_str (current st) of
        None \<Rightarrow> set_error NumberParseFailed st
      | Some current_value \<Rightarrow>
          (let value =
             (if length (tokens st) \<ge> 2 \<and> last (tokens st) \<in> OPERATORS then
                (let base = (case Decimal_of_str (last (butlast (tokens st))) of
                               None \<Rightarrow> Decimal False 0 0
                             | Some b \<Rightarrow> b)
                 in dec_div (dec_mul base current_value) (Decimal False 100 0))
              else dec_div current_value (Decimal False 100 0))
           in st\<lparr>current := format_decimal value, overwrite := False\<rparr>))"

definition backspace :: "CalculatorState \<Rightarrow> CalculatorState" where
  "backspace st0 =
     (let st = reset_on_error st0 in
      if overwrite st then st\<lparr>current := ''0''\<rparr>
      else if length (current st) > 1 then
        (let c = butlast (current st) in
         if c = ''-'' \<or> c = ''-0'' then st\<lparr>current := ''0'', overwrite := True\<rparr>
         else st\<lparr>current := c\<rparr>)
      else st\<lparr>current := ''0'', overwrite := True\<rparr>)"

text \<open>
  The keys of the dispatcher. The sign key and the erase key outside ASCII are written as
  their UTF-8 bytes.
\<close>

definition plus_minus_sign :: string where
  "plus_minus_sign = [CHR 0xC2, CHR 0xB1]"

definition erase_sign :: string where
  "erase_sign = [CHR 0xE2, CHR 0x8C, CHR 0xAB]"

definition dispatcher ::
  "(string \<Rightarrow> decimal) \<Rightarrow> string \<Rightarrow> (CalculatorState \<Rightarrow> exn option \<times> CalculatorState) option" where
  "dispatcher fl command =
     (if command = ''C'' then Some (\<lambda>st. (None, clear_all st))
      else if command = ''CE'' then Some (\<lambda>st. (None, clear_entry st))
      else if command = ''='' then Some (calculate_result fl)
      else if command = ''%'' then Some (\<lambda>st. (None, percent st))
      else if command = ''+/-'' then Some (\<lambda>st. (None, toggle_sign st))
      else if command = plus_minus_sign then Some (\<lambda>st. (None, toggle_sign st))
      else if command = erase_sign then Some (\<lambda>st. (None, backspace st))
      else if command = ''Backspace'' then Some (\<lambda>st. (None, backspace st))
      else None)"

text \<open>
  \<open>CalculatorEngine.process\<close>: the branch taken, as the exception that escapes (if any)
  and the state of the engine afterwards; then the result the caller sees.
\<close>

definition handle :: "(string \<Rightarrow> decimal) \<Rightarrow> string \<Rightarrow> CalculatorState \<Rightarrow> exn option \<times> CalculatorState" where
  "handle fl command st =
     (if str_in command ''0123456789'' then (None, input_digit command st)
      else if command = ''.'' then (None, input_decimal_point st)
      else if command \<in> OPERATORS then apply_operator command st
      else (case dispatcher fl command of
              Some handler \<Rightarrow> handler st
            | None \<Rightarrow> (None, st)))"

definition process ::
  "(string \<Rightarrow> decimal) \<Rightarrow> string \<Rightarrow> CalculatorState
     \<Rightarrow> (exn + string \<times> string \<times> message option) \<times> CalculatorState" where
  "process fl command st =
     (case handle fl command st of
        (Some e, st') \<Rightarrow> (Inl e, st')
      | (None, st') \<Rightarrow> (Inr (get_display st'), st'))"

text \<open>The engine after the commands of a list, one \<open>process\<close> call each.\<close>

definition press :: "(string \<Rightarrow> decimal) \<Rightarrow> string list \<Rightarrow> CalculatorState \<Rightarrow> CalculatorState" where
  "press fl commands st = foldl (\<lambda>s c. snd (process fl c s)) st commands"

text \<open>The states an engine can be in: the fresh one, and any state a call leaves.\<close>

inductive reachable :: "(string \<Rightarrow> decimal) \<Rightarrow> CalculatorState \<Rightarrow> bool" for fl where
  reachable_init: "reachable fl initial_state"
| reachable_step: "reachable fl st \<Longrightarrow> reachable fl (snd (process fl command st))"

text \<open>
  An instance of the float conversion for concrete runs: the exact value of the literal.
  The runs evaluated below hold integer literals only and never call it.
\<close>

definition exact_literal :: "string \<Rightarrow> decimal" where
  "exact_literal text = (case unsigned_literal text of None \<Rightarrow> Decimal False 0 0 | Some d \<Rightarrow> d)"

section \<open>Frame lemmas: what each handler does to the tokens\<close>

definition ends_with_operator :: "string list \<Rightarrow> bool" where
  "ends_with_operator ts = (ts = [] \<or> last ts \<in> OPERATORS)"

lemma tokens_reset_on_error:
  "tokens (reset_on_error st) = (if error st = None then tokens st else [])"
  by (simp add: reset_on_error_def initial_state_def)

lemma tokens_input_digit: "tokens (input_digit d st) = tokens (reset_on_error st)"
  by (simp add: input_digit_def Let_def)

lemma tokens_input_decimal_point: "tokens (input_decimal_point st) = tokens (reset_on_error st)"
  by (simp add: input_decimal_point_def Let_def)

lemma tokens_clear_entry: "tokens (clear_entry st) = tokens (reset_on_error st)"
  by (simp add: clear_entry_def)

lemma tokens_toggle_sign:
  "tokens (toggle_sign st) = tokens (reset_on_error st) \<or> tokens (toggle_sign st) = []"
  by (simp add: toggle_sign_def Let_def set_error_def split: option.splits)

lemma tokens_percent:
  "tokens (percent st) = tokens (reset_on_error st) \<or> tokens (percent st) = []"
  by (simp add: percent_def Let_def set_error_def split: option.splits)

lemma tokens_backspace: "tokens (backspace st) = tokens (reset_on_error st)"
  by (simp add: backspace_def Let_def)

lemma tokens_calculate_result:
  "tokens (snd (calculate_result fl st)) = tokens (reset_on_error st)
   \<or> tokens (snd (calculate_result fl st)) = []"
  by (simp add: calculate_result_def Let_def set_error_def split: sum.splits exn.splits)

lemma tokens_apply_operator:
  "op \<in> OPERATORS \<Longrightarrow>
   tokens (snd (apply_operator op st)) = tokens (reset_on_error st)
   \<or> (tokens (snd (apply_operator op st)) \<noteq> [] \<and> last (tokens (snd (apply_operator op st))) = op)"
  by (simp add: apply_operator_def commit_current_def Let_def split: sum.splits)

lemma tokens_dispatcher:
  "dispatcher fl command = Some h \<Longrightarrow>
   tokens (snd (h st)) = tokens (reset_on_error st) \<or> tokens (snd (h st)) = []"
  using tokens_toggle_sign [of st] tokens_percent [of st] tokens_calculate_result [of fl st]
  by (auto simp: dispatcher_def clear_all_def initial_state_def tokens_clear_entry
      tokens_backspace split: if_splits)

lemma ends_with_operator_handle:
  assumes "ends_with_operator (tokens st)"
  shows "ends_with_operator (tokens (snd (handle fl command st)))"
proof -
  have r: "ends_with_operator (tokens (reset_on_error st))"
    using assms by (simp add: tokens_reset_on_error ends_with_operator_def)
  show ?thesis
  proof (cases "str_in command ''0123456789''")
    case True
    then show ?thesis using r by (simp add: handle_def tokens_input_digit)
  next
    case nd: False
    show ?thesis
    proof (cases "command = ''.''")
      case True
      then show ?thesis using r nd by (simp add: handle_def tokens_input_decimal_point)
    next
      case np: False
      show ?thesis
      proof (cases "command \<in> OPERATORS")
        case True
        then show ?thesis
          using r nd np tokens_apply_operator [OF True, of st]
          by (auto simp: handle_def ends_with_operator_def)
      next
        case False
        then show ?thesis
          using r nd np assms
          by (auto simp: handle_def ends_with_operator_def split: option.splits
              dest!: tokens_dispatcher [where st = st])
      qed
    qed
  qed
qed

lemma snd_process: "snd (process fl command st) = snd (handle fl command st)"
  by (simp add: process_def split: prod.splits option.splits)

lemma reachable_ends_with_operator:
  "reachable fl st \<Longrightarrow> ends_with_operator (tokens st)"
  by (induction rule: reachable.induct)
     (simp_all add: snd_process ends_with_operator_handle, simp add: initial_state_def ends_with_operator_def)

lemma reachable_press:
  "reachable fl st \<Longrightarrow> reachable fl (press fl commands st)"
proof (induction commands arbitrary: st)
  case Nil
  then show ?case by (simp add: press_def)
next
  case (Cons c cs)
  have "reachable fl (snd (process fl c st))"
    using Cons.prems by (rule reachable_step)
  then have "reachable fl (press fl cs (snd (process fl c st)))"
    by (rule Cons.IH)
  then show ?case by (simp add: press_def)
qed

lemma last_join:
  "ts \<noteq> [] \<Longrightarrow> last ts \<noteq> [] \<Longrightarrow> join sep ts \<noteq> [] \<and> last (join sep ts) = last (last ts)"
  by (induction sep ts rule: join.induct) auto

lemma operator_last_char:
  "t \<in> OPERATORS \<Longrightarrow> t \<noteq> [] \<and> [last t] \<in> OPERATORS"
  by (auto simp: OPERATORS_def)

lemma evaluation_list_after_operator:
  "ts \<noteq> [] \<Longrightarrow> last ts \<in> OPERATORS \<Longrightarrow> tokens st = ts \<Longrightarrow>
   evaluation_list st =
     (case sanitize_number (current st) of Inl e \<Rightarrow> Inl e | Inr v \<Rightarrow> Inr (ts @ [v]))"
  by (simp add: evaluation_list_def Let_def split: sum.splits)

text \<open>
  C10. In every state the engine can be in after a \<open>process\<close> call, the token list is
  empty or ends with one of the four operators: no committed number is left at its end.
  So the expression display, when not empty, ends with an operator character, and the
  list \<open>_calculate_result\<close> evaluates for a non-empty token list is the token list with
  the sanitized entry appended (when the entry sanitizes).
\<close>

theorem tokens_end_with_operator:
  assumes "reachable fl st"
  shows "(tokens st = [] \<or> last (tokens st) \<in> OPERATORS)
       \<and> (expression_text st = [] \<or> [last (expression_text st)] \<in> OPERATORS)
       \<and> (tokens st = [] \<or>
            evaluation_list st =
              (case sanitize_number (current st) of
                 Inl e \<Rightarrow> Inl e
               | Inr v \<Rightarrow> Inr (tokens st @ [v])))"
proof -
  have e: "tokens st = [] \<or> last (tokens st) \<in> OPERATORS"
    using reachable_ends_with_operator [OF assms] by (simp add: ends_with_operator_def)
  have d: "expression_text st = [] \<or> [last (expression_text st)] \<in> OPERATORS"
  proof (cases "tokens st = []")
    case True
    then show ?thesis by (simp add: expression_text_def)
  next
    case False
    then have l: "last (tokens st) \<in> OPERATORS" using e by simp
    then have "last (tokens st) \<noteq> []" "[last (last (tokens st))] \<in> OPERATORS"
      using operator_last_char by blast+
    then show ?thesis
      using last_join [OF False, of "'' ''"] by (simp add: expression_text_def)
  qed
  have v: "tokens st = [] \<or>
            evaluation_list st =
              (case sanitize_number (current st) of
                 Inl e \<Rightarrow> Inl e
               | Inr v \<Rightarrow> Inr (tokens st @ [v]))"
    using e evaluation_list_after_operator [of "tokens st" st] by blast
  show ?thesis using e d v by blast
qed

theorem tokens_end_with_operator_witness:
  "reachable exact_literal (press exact_literal [''1'', ''2'', ''+''] initial_state)
   \<and> tokens (press exact_literal [''1'', ''2'', ''+''] initial_state) = [''12'', ''+'']
   \<and> last (tokens (press exact_literal [''1'', ''2'', ''+''] initial_state)) \<in> OPERATORS
   \<and> expression_text (press exact_literal [''1'', ''2'', ''+''] initial_state) = ''12 +''"
proof -
  have r: "reachable exact_literal (press exact_literal [''1'', ''2'', ''+''] initial_state)"
    by (rule reachable_press, rule reachable_init)
  have t: "tokens (press exact_literal [''1'', ''2'', ''+''] initial_state) = [''12'', ''+'']"
    by code_simp
  have x: "expression_text (press exact_literal [''1'', ''2'', ''+''] initial_state) = ''12 +''"
    by code_simp
  show ?thesis
    using r t x tokens_end_with_operator [OF r] by simp
qed

section \<open>The error state\<close>

text \<open>A state with an error set is the error state: no tokens, entry 0, overwrite.\<close>

definition error_state_ok :: "CalculatorState \<Rightarrow> bool" where
  "error_state_ok st =
     (error st = None \<or> (tokens st = [] \<and> current st = ''0'' \<and> overwrite st))"

lemma error_state_ok_reset: "error_state_ok (reset_on_error st)"
  by (simp add: error_state_ok_def reset_on_error_def initial_state_def)

lemma error_reset_on_error [simp]: "error (reset_on_error st) = None"
  by (simp add: reset_on_error_def initial_state_def)

lemma error_state_ok_set_error: "error_state_ok (set_error m st)"
  by (simp add: error_state_ok_def set_error_def)

lemma error_state_ok_input_digit: "error_state_ok (input_digit d st)"
  by (simp add: input_digit_def Let_def error_state_ok_def)

lemma error_state_ok_input_decimal_point: "error_state_ok (input_decimal_point st)"
  by (simp add: input_decimal_point_def Let_def error_state_ok_def)

lemma error_state_ok_clear_entry: "error_state_ok (clear_entry st)"
  by (simp add: clear_entry_def error_state_ok_def)

lemma error_state_ok_toggle_sign: "error_state_ok (toggle_sign st)"
  by (simp add: toggle_sign_def Let_def error_state_ok_def set_error_def split: option.splits)

lemma error_state_ok_percent: "error_state_ok (percent st)"
  by (simp add: percent_def Let_def error_state_ok_def set_error_def split: option.splits)

lemma error_state_ok_backspace: "error_state_ok (backspace st)"
  by (simp add: backspace_def Let_def error_state_ok_def)

lemma error_state_ok_calculate_result: "error_state_ok (snd (calculate_result fl st))"
  by (simp add: calculate_result_def Let_def error_state_ok_def set_error_def
      split: sum.splits exn.splits)

lemma error_state_ok_apply_operator: "error_state_ok (snd (apply_operator op st))"
  by (auto simp: apply_operator_def commit_current_def Let_def error_state_ok_def
      split: sum.splits)

lemma error_state_ok_dispatcher:
  "dispatcher fl command = Some h \<Longrightarrow> error_state_ok (snd (h st))"
  by (auto simp: dispatcher_def clear_all_def error_state_ok_clear_entry
      error_state_ok_toggle_sign error_state_ok_percent error_state_ok_backspace
      error_state_ok_calculate_result split: if_splits)
     (simp add: error_state_ok_def initial_state_def)

lemma error_state_ok_handle:
  "error_state_ok st \<Longrightarrow> error_state_ok (snd (handle fl command st))"
  by (simp add: handle_def error_state_ok_input_digit error_state_ok_input_decimal_point
      error_state_ok_apply_operator error_state_ok_dispatcher split: option.splits)

lemma reachable_error_state_ok: "reachable fl st \<Longrightarrow> error_state_ok st"
proof (induction rule: reachable.induct)
  case reachable_init
  show ?case by (simp add: error_state_ok_def initial_state_def)
next
  case (reachable_step st command)
  then show ?case by (simp add: snd_process error_state_ok_handle)
qed

section \<open>Backspace, errors and unknown commands\<close>

lemma handle_Backspace: "handle fl ''Backspace'' st = (None, backspace st)"
  by (simp add: handle_def dispatcher_def OPERATORS_def plus_minus_sign_def erase_sign_def)

lemma handle_erase_sign: "handle fl erase_sign st = (None, backspace st)"
  by (simp add: handle_def dispatcher_def OPERATORS_def plus_minus_sign_def erase_sign_def)


lemma handle_equals: "handle fl ''='' st = calculate_result fl st"
  by (simp add: handle_def dispatcher_def OPERATORS_def plus_minus_sign_def erase_sign_def)

lemma backspace_overwrite_state:
  assumes "error_state_ok st" and "overwrite st"
  shows "backspace st = (reset_on_error st)\<lparr>current := ''0''\<rparr>"
    and "overwrite (reset_on_error st)" and "tokens (reset_on_error st) = tokens st"
  using assms
  by (auto simp: backspace_def Let_def reset_on_error_def error_state_ok_def initial_state_def)

text \<open>
  C9 (as amended). In every reachable state with \<open>overwrite\<close> set, Backspace (under
  either of its two command names) sets \<open>current\<close> to \<open>0\<close> whatever it was, leaves
  \<open>overwrite\<close> set and leaves the tokens untouched.
\<close>

theorem backspace_when_overwrite:
  assumes "reachable fl st" and "overwrite st"
    and "command = ''Backspace'' \<or> command = erase_sign"
  shows "current (snd (process fl command st)) = ''0''
       \<and> overwrite (snd (process fl command st))
       \<and> tokens (snd (process fl command st)) = tokens st"
proof -
  have ok: "error_state_ok st"
    using assms(1) by (rule reachable_error_state_ok)
  have "snd (process fl command st) = backspace st"
    using assms(3) by (auto simp: snd_process handle_Backspace handle_erase_sign)
  then show ?thesis
    using backspace_overwrite_state [OF ok assms(2)] by simp
qed

theorem backspace_when_overwrite_witness:
  "reachable exact_literal (press exact_literal [''5'', ''+''] initial_state)
   \<and> overwrite (press exact_literal [''5'', ''+''] initial_state)
   \<and> current (snd (process exact_literal ''Backspace''
        (press exact_literal [''5'', ''+''] initial_state))) = ''0''
   \<and> tokens (snd (process exact_literal ''Backspace''
        (press exact_literal [''5'', ''+''] initial_state))) = [''5'', ''+'']"
proof -
  have r: "reachable exact_literal (press exact_literal [''5'', ''+''] initial_state)"
    by (rule reachable_press, rule reachable_init)
  have ov: "overwrite (press exact_literal [''5'', ''+''] initial_state)"
    by code_simp
  have t: "tokens (press exact_literal [''5'', ''+''] initial_state) = [''5'', ''+'']"
    by code_simp
  show ?thesis
    using r ov t backspace_when_overwrite [OF r ov, of "''Backspace''"] by simp
qed

text \<open>
  C9 as stated fails: Backspace with \<open>overwrite\<close> set is not a no-op on the value. After
  the keys 5 and + the entry still shows 5 with \<open>overwrite\<close> set, and Backspace
  replaces it by 0.
\<close>

theorem backspace_changes_value:
  "reachable exact_literal (press exact_literal [''5'', ''+''] initial_state)
   \<and> overwrite (press exact_literal [''5'', ''+''] initial_state)
   \<and> current (press exact_literal [''5'', ''+''] initial_state) = ''5''
   \<and> current (snd (process exact_literal ''Backspace''
        (press exact_literal [''5'', ''+''] initial_state))) = ''0''"
proof -
  have r: "reachable exact_literal (press exact_literal [''5'', ''+''] initial_state)"
    by (rule reachable_press, rule reachable_init)
  have a: "overwrite (press exact_literal [''5'', ''+''] initial_state)"
    by code_simp
  have b: "current (press exact_literal [''5'', ''+''] initial_state) = ''5''"
    by code_simp
  have c: "current (snd (process exact_literal ''Backspace''
        (press exact_literal [''5'', ''+''] initial_state))) = ''0''"
    by code_simp
  show ?thesis using r a b c by simp
qed

lemma reset_on_error_set:
  "error st \<noteq> None \<Longrightarrow> reset_on_error st = reset_on_error initial_state"
  by (simp add: reset_on_error_def initial_state_def)

lemma handlers_after_error:
  assumes "error st \<noteq> None"
  shows "input_digit d st = input_digit d initial_state"
    and "input_decimal_point st = input_decimal_point initial_state"
    and "apply_operator op st = apply_operator op initial_state"
    and "calculate_result fl st = calculate_result fl initial_state"
    and "clear_all st = clear_all initial_state"
    and "clear_entry st = clear_entry initial_state"
    and "toggle_sign st = toggle_sign initial_state"
    and "percent st = percent initial_state"
    and "backspace st = backspace initial_state"
  using reset_on_error_set [OF assms]
  by (simp_all add: input_digit_def input_decimal_point_def apply_operator_def
      calculate_result_def clear_all_def clear_entry_def toggle_sign_def percent_def
      backspace_def)

lemma dispatcher_after_error:
  "error st \<noteq> None \<Longrightarrow> dispatcher fl command = Some h \<Longrightarrow> h st = h initial_state"
  by (auto simp: dispatcher_def handlers_after_error split: if_splits)

text \<open>
  C4 (as amended). A command that \<open>process\<close> recognizes (a piece of \<open>0123456789\<close>,
  the point, an operator, a key of the dispatcher), processed while \<open>error\<close> is set, is
  applied to the fresh state: the result and the state afterwards are those of the same
  call on the identity state. Any other command returns the display and leaves the
  state, with its error, as it is.
\<close>

theorem error_cleared_first:
  assumes "error st \<noteq> None"
  shows "(if str_in command ''0123456789'' \<or> command = ''.'' \<or> command \<in> OPERATORS
             \<or> dispatcher fl command \<noteq> None
          then process fl command st = process fl command initial_state
          else process fl command st = (Inr (get_display st), st))"
proof -
  have "handle fl command st = handle fl command initial_state"
    if "str_in command ''0123456789'' \<or> command = ''.'' \<or> command \<in> OPERATORS
             \<or> dispatcher fl command \<noteq> None"
    using that assms
    by (auto simp: handle_def handlers_after_error dispatcher_after_error split: option.splits)
  moreover have "handle fl command st = (None, st)"
    if "\<not> (str_in command ''0123456789'' \<or> command = ''.'' \<or> command \<in> OPERATORS
             \<or> dispatcher fl command \<noteq> None)"
    using that by (simp add: handle_def)
  ultimately show ?thesis
    by (simp add: process_def)
qed

theorem error_cleared_first_witness:
  "error (press exact_literal [''8'', ''/'', ''0'', ''=''] initial_state) \<noteq> None
   \<and> process exact_literal ''5'' (press exact_literal [''8'', ''/'', ''0'', ''=''] initial_state)
       = process exact_literal ''5'' initial_state
   \<and> snd (process exact_literal ''5'' (press exact_literal [''8'', ''/'', ''0'', ''=''] initial_state))
       = \<lparr>tokens = [], current = ''5'', overwrite = False, error = None\<rparr>"
proof -
  have e: "error (press exact_literal [''8'', ''/'', ''0'', ''=''] initial_state) \<noteq> None"
    by code_simp
  have d: "str_in ''5'' ''0123456789''"
    by code_simp
  have f: "snd (process exact_literal ''5'' initial_state)
       = \<lparr>tokens = [], current = ''5'', overwrite = False, error = None\<rparr>"
    by code_simp
  show ?thesis
    using e d f error_cleared_first [OF e, of "''5''" exact_literal] by simp
qed

text \<open>
  C4 as stated fails for an unrecognized command: after a division by zero the command
  \<open>x\<close> leaves the error set, where the same command on the identity state leaves the
  identity state.
\<close>

theorem unknown_command_keeps_error:
  "error (press exact_literal [''8'', ''/'', ''0'', ''=''] initial_state) = Some ZeroDivisionMessage
   \<and> error (snd (process exact_literal ''x''
        (press exact_literal [''8'', ''/'', ''0'', ''=''] initial_state))) = Some ZeroDivisionMessage
   \<and> snd (process exact_literal ''x'' initial_state) = initial_state"
  by code_simp

section \<open>The empty command\<close>

text \<open>
  C5. The empty string is a piece of \<open>0123456789\<close>, so \<open>process\<close> takes it as a
  digit and makes it the entry. The operator that follows sanitizes the empty entry outside
  any \<open>try\<close>, and the \<open>ValueError\<close> escapes from \<open>process\<close>.
\<close>

theorem operator_after_empty_command_raises:
  "snd (process exact_literal [] initial_state)
     = \<lparr>tokens = [], current = [], overwrite = False, error = None\<rparr>
   \<and> fst (process exact_literal ''+'' (snd (process exact_literal [] initial_state)))
     = Inl ValueError"
  by code_simp

text \<open>
  C8. After the empty command the entry is the empty string, which the decimal
  constructor rejects; the sign key then takes its parse-failure branch.
\<close>

theorem empty_command_breaks_current:
  "reachable exact_literal (snd (process exact_literal [] initial_state))
   \<and> current (snd (process exact_literal [] initial_state)) = []
   \<and> Decimal_of_str (current (snd (process exact_literal [] initial_state))) = None
   \<and> snd (process exact_literal ''+/-'' (snd (process exact_literal [] initial_state)))
     = \<lparr>tokens = [], current = ''0'', overwrite = True, error = Some NumberParseFailed\<rparr>"
proof -
  have r: "reachable exact_literal (snd (process exact_literal [] initial_state))"
    by (rule reachable_step, rule reachable_init)
  have a: "current (snd (process exact_literal [] initial_state)) = []
   \<and> Decimal_of_str (current (snd (process exact_literal [] initial_state))) = None
   \<and> snd (process exact_literal ''+/-'' (snd (process exact_literal [] initial_state)))
     = \<lparr>tokens = [], current = ''0'', overwrite = True, error = Some NumberParseFailed\<rparr>"
    by code_simp
  show ?thesis using r a by blast
qed

section \<open>Equals after an operator\<close>

lemma reset_on_error_None [simp]: "error st = None \<Longrightarrow> reset_on_error st = st"
  by (simp add: reset_on_error_def)

lemma calculate_result_after_operator:
  assumes "error st = None" and "tokens st \<noteq> []" and "last (tokens st) \<in> OPERATORS"
    and "sanitize_number (current st) = Inr v"
    and "safe_calculate fl (join '' '' (tokens st @ [v])) = Inr r"
  shows "calculate_result fl st =
    (None, st\<lparr>current := format_decimal r, tokens := [], overwrite := True, error := None\<rparr>)"
  using assms evaluation_list_after_operator [OF assms(2,3) refl]
  by (simp add: calculate_result_def)

text \<open>
  C3 (as amended). When Equals is received and the last token is an operator, the
  sanitized entry is appended to the tokens as the right operand, whether or not
  \<open>overwrite\<close> is set; the trailing operator is never dropped, and the result is the value
  of the list so extended. After the keys 5, +, = the result is 10.
\<close>

theorem equals_after_operator:
  assumes "error st = None" and "tokens st \<noteq> []" and "last (tokens st) \<in> OPERATORS"
    and "sanitize_number (current st) = Inr v"
  shows "evaluation_list st = Inr (tokens st @ [v])
       \<and> (\<forall>r. safe_calculate fl (join '' '' (tokens st @ [v])) = Inr r \<longrightarrow>
              process fl ''='' st =
                (Inr ([], format_decimal r, None),
                 st\<lparr>current := format_decimal r, tokens := [], overwrite := True,
                      error := None\<rparr>))
       \<and> current (press fl [''5'', ''+'', ''=''] initial_state) = ''10''"
proof -
  have a: "evaluation_list st = Inr (tokens st @ [v])"
    using evaluation_list_after_operator [OF assms(2,3) refl] assms(4) by simp
  have b: "process fl ''='' st =
                (Inr ([], format_decimal r, None),
                 st\<lparr>current := format_decimal r, tokens := [], overwrite := True,
                      error := None\<rparr>)"
    if "safe_calculate fl (join '' '' (tokens st @ [v])) = Inr r" for r
    using calculate_result_after_operator [OF assms that]
    by (simp add: process_def handle_equals get_display_def expression_text_def)
  have c: "current (press fl [''5'', ''+'', ''=''] initial_state) = ''10''"
    by code_simp
  show ?thesis using a b c by blast
qed

theorem equals_after_operator_witness:
  "overwrite (press exact_literal [''5'', ''+''] initial_state)
   \<and> evaluation_list (press exact_literal [''5'', ''+''] initial_state) = Inr [''5'', ''+'', ''5'']
   \<and> snd (process exact_literal ''='' (press exact_literal [''5'', ''+''] initial_state))
       = \<lparr>tokens = [], current = ''10'', overwrite = True, error = None\<rparr>"
proof -
  let ?st = "press exact_literal [''5'', ''+''] initial_state"
  have st: "?st = \<lparr>tokens = [''5'', ''+''], current = ''5'', overwrite = True, error = None\<rparr>"
    by code_simp
  have h: "error ?st = None" "tokens ?st \<noteq> []" "last (tokens ?st) \<in> OPERATORS"
    "sanitize_number (current ?st) = Inr ''5''"
    unfolding st by code_simp+
  have r: "safe_calculate exact_literal (join '' '' ([''5'', ''+''] @ [''5''])) = Inr (Decimal False 10 0)"
    by code_simp
  have f: "format_decimal (Decimal False 10 0) = ''10''"
    by code_simp
  show ?thesis
    using equals_after_operator [OF h, of exact_literal] r f unfolding st by simp
qed

text \<open>
  C3 as stated fails: after the keys 5 and + the last token is an operator and
  \<open>overwrite\<close> is set, and Equals gives 10, the value of 5 + 5, not 5.
\<close>

theorem equals_keeps_trailing_operator:
  "overwrite (press exact_literal [''5'', ''+''] initial_state)
   \<and> tokens (press exact_literal [''5'', ''+''] initial_state) = [''5'', ''+'']
   \<and> current (press exact_literal [''5'', ''+'', ''=''] initial_state) = ''10''"
  by code_simp

section \<open>Percent\<close>




section \<open>The shape of a formatted number\<close>

lemma is_digit_digit_char: "is_digit (digit_char n)"
proof -
  have "n mod 10 < length ''0123456789''" by simp
  then show ?thesis
    unfolding is_digit_def digit_char_def by (rule nth_mem)
qed

lemma str_of_nat_digits: "str_of_nat n \<noteq> [] \<and> list_all is_digit (str_of_nat n)"
proof (induction n rule: str_of_nat.induct)
  case (1 n)
  show ?case
  proof (cases "n < 10")
    case True
    then show ?thesis by (simp add: str_of_nat.simps [of n] is_digit_digit_char)
  next
    case False
    then show ?thesis
      using 1 by (simp add: str_of_nat.simps [of n] is_digit_digit_char)
  qed
qed

lemma not_digit_chars [simp]:
  "\<not> is_digit CHR ''.''" "\<not> is_digit CHR ''-''" "\<not> is_digit CHR ''+''"
  "is_digit CHR ''0''"
  by (simp_all add: is_digit_def)

text \<open>A plain literal: an optional minus sign, digits, and digits after a point if any.\<close>

definition plain :: "bool \<Rightarrow> string \<Rightarrow> string \<Rightarrow> string" where
  "plain s ip fp = (if s then ''-'' else []) @ ip @ (if fp = [] then [] else CHR ''.'' # fp)"

lemma format_f_plain:
  "\<exists>ip fp. format_f d = plain (dsign d) ip fp \<and> ip \<noteq> [] \<and> list_all is_digit ip
     \<and> list_all is_digit fp"
proof -
  define digits where "digits = str_of_nat (dint d)"
  define dotplace where "dotplace = dexp d + int (length digits)"
  have dg: "digits \<noteq> []" "list_all is_digit digits"
    using str_of_nat_digits [of "dint d"] by (simp_all add: digits_def)
  define ip where "ip =
            (if dotplace < 0 then ''0''
             else if dotplace > int (length digits)
               then digits @ replicate (nat (dotplace - int (length digits))) CHR ''0''
             else if take (nat dotplace) digits = [] then ''0''
             else take (nat dotplace) digits)"
  define fp where "fp =
            (if dotplace < 0 then replicate (nat (- dotplace)) CHR ''0'' @ digits
             else if dotplace > int (length digits) then []
             else drop (nat dotplace) digits)"
  have f: "format_f d = plain (dsign d) ip fp"
    by (simp add: format_f_def plain_def Let_def ip_def fp_def dotplace_def digits_def)
  have t: "list_all is_digit (take k digits)" "list_all is_digit (drop k digits)" for k
    using dg(2) by (auto simp: list_all_iff dest: in_set_takeD in_set_dropD)
  have r: "list_all is_digit (replicate k CHR ''0'')" for k
    by (simp add: list_all_iff)
  have "ip \<noteq> []" using dg(1) by (simp add: ip_def)
  moreover have "list_all is_digit ip" using dg(2) t r by (simp add: ip_def)
  moreover have "list_all is_digit fp" using dg(2) t r by (simp add: fp_def)
  ultimately show ?thesis using f by blast
qed

lemma rstrip_append_other:
  "c \<noteq> d \<Longrightarrow> rstrip c (xs @ d # ys) = xs @ d # rstrip c ys"
  by (simp add: rstrip_def dropWhile_append)

lemma rstrip_snoc: "rstrip c (xs @ [c]) = rstrip c xs"
  by (simp add: rstrip_def)

lemma rstrip_last_other: "s \<noteq> [] \<Longrightarrow> last s \<noteq> c \<Longrightarrow> rstrip c s = s"
  by (cases s rule: rev_cases) (simp_all add: rstrip_def)

lemma rstrip_digits: "list_all is_digit fp \<Longrightarrow> list_all is_digit (rstrip c fp)"
  by (auto simp: rstrip_def list_all_iff dest: set_dropWhileD)

lemma last_digits: "s \<noteq> [] \<Longrightarrow> list_all is_digit s \<Longrightarrow> is_digit (last s)"
  by (simp add: list_all_iff)

lemma dot_in_plain:
  "list_all is_digit ip \<Longrightarrow> list_all is_digit fp \<Longrightarrow>
   CHR ''.'' \<in> set (plain s ip fp) \<longleftrightarrow> fp \<noteq> []"
  by (auto simp: plain_def list_all_iff)

lemma rstrip_plain:
  assumes "ip \<noteq> []" and "list_all is_digit ip" and "list_all is_digit fp" and "fp \<noteq> []"
  shows "rstrip CHR ''.'' (rstrip CHR ''0'' (plain s ip fp)) = plain s ip (rstrip CHR ''0'' fp)"
proof -
  let ?x = "(if s then ''-'' else []) @ ip"
  have a: "rstrip CHR ''0'' (plain s ip fp) = ?x @ CHR ''.'' # rstrip CHR ''0'' fp"
    using assms(4) rstrip_append_other [of "CHR ''0''" "CHR ''.''" ?x fp]
    by (simp add: plain_def)
  have x: "?x \<noteq> []" "last ?x \<noteq> CHR ''.''"
    using assms(1) last_digits [OF assms(1,2)] by auto
  show ?thesis
  proof (cases "rstrip CHR ''0'' fp = []")
    case True
    have "rstrip CHR ''.'' (?x @ [CHR ''.'']) = ?x"
      using rstrip_snoc [of "CHR ''.''" ?x] rstrip_last_other [OF x] by simp
    then show ?thesis using a True by (simp add: plain_def)
  next
    case False
    have "list_all is_digit (rstrip CHR ''0'' fp)"
      using assms(3) by (rule rstrip_digits)
    then have "last (rstrip CHR ''0'' fp) \<noteq> CHR ''.''"
      using False last_digits [of "rstrip CHR ''0'' fp"] by auto
    then have "last (?x @ CHR ''.'' # rstrip CHR ''0'' fp) \<noteq> CHR ''.''"
      using False by simp
    then have "rstrip CHR ''.'' (?x @ CHR ''.'' # rstrip CHR ''0'' fp)
        = ?x @ CHR ''.'' # rstrip CHR ''0'' fp"
      by (intro rstrip_last_other) simp_all
    then show ?thesis using a False by (simp add: plain_def)
  qed
qed

lemma unsigned_literal_plain:
  assumes "ip \<noteq> []" and "list_all is_digit ip" and "list_all is_digit fp"
  shows "unsigned_literal (plain False ip fp) \<noteq> None"
proof -
  have t: "takeWhile is_digit (ip @ (if fp = [] then [] else CHR ''.'' # fp)) = ip"
    using assms(2) by (simp add: takeWhile_append list_all_iff)
  have d: "dropWhile is_digit (ip @ (if fp = [] then [] else CHR ''.'' # fp))
      = (if fp = [] then [] else CHR ''.'' # fp)"
    using assms(2) by (simp add: dropWhile_append list_all_iff)
  show ?thesis
    using assms by (simp add: unsigned_literal_def plain_def t d Let_def)
qed

lemma Decimal_of_str_plain:
  assumes "ip \<noteq> []" and "list_all is_digit ip" and "list_all is_digit fp"
  shows "Decimal_of_str (plain s ip fp) \<noteq> None"
proof (cases s)
  case True
  then have "plain s ip fp = CHR ''-'' # plain False ip fp"
    by (simp add: plain_def)
  then show ?thesis
    using unsigned_literal_plain [OF assms] by (simp add: Decimal_of_str_def)
next
  case False
  obtain c cs where ip: "ip = c # cs" using assms(1) by (cases ip) auto
  then have c: "is_digit c" using assms(2) by simp
  then have "c \<noteq> CHR ''-''" "c \<noteq> CHR ''+''" by auto
  then show ?thesis
    using unsigned_literal_plain [OF assms] False ip
    by (simp add: Decimal_of_str_def plain_def)
qed

lemma Decimal_of_str_format_decimal: "Decimal_of_str (format_decimal v) \<noteq> None"
proof -
  obtain ip fp where f: "format_f (normalize_dec v) = plain (dsign (normalize_dec v)) ip fp"
    and ip: "ip \<noteq> []" "list_all is_digit ip" and fp: "list_all is_digit fp"
    using format_f_plain by blast
  let ?s = "dsign (normalize_dec v)"
  define fp' where "fp' = (if fp = [] then [] else rstrip CHR ''0'' fp)"
  have fp': "list_all is_digit fp'"
    using fp by (simp add: fp'_def rstrip_digits)
  have t1: "(if CHR ''.'' \<in> set (plain ?s ip fp)
             then rstrip CHR ''.'' (rstrip CHR ''0'' (plain ?s ip fp))
             else plain ?s ip fp) = plain ?s ip fp'"
    using rstrip_plain [OF ip fp] dot_in_plain [OF ip(2) fp] by (simp add: fp'_def)
  have z: "Decimal_of_str ''0'' \<noteq> None"
    by (simp add: Decimal_of_str_def unsigned_literal_def Let_def int_of_str_def)
  show ?thesis
    using Decimal_of_str_plain [OF ip fp', of ?s] z
    by (simp add: format_decimal_def f t1 Let_def)
qed

section \<open>The tokens alternate\<close>

text \<open>A number token is a string the decimal constructor accepts.\<close>

definition is_number :: "string \<Rightarrow> bool" where
  "is_number t = (Decimal_of_str t \<noteq> None)"

text \<open>Numbers and operators in turn, a number first.\<close>

fun alternates :: "string list \<Rightarrow> bool" where
  "alternates [] = True"
| "alternates [n] = is_number n"
| "alternates (n # op # ts) = (is_number n \<and> op \<in> OPERATORS \<and> alternates ts)"

text \<open>The same with an operator last: the form of the tokens between two calls.\<close>

fun operand_operator_pairs :: "string list \<Rightarrow> bool" where
  "operand_operator_pairs [] = True"
| "operand_operator_pairs [n] = False"
| "operand_operator_pairs (n # op # ts) =
     (is_number n \<and> op \<in> OPERATORS \<and> operand_operator_pairs ts)"

lemma operator_not_number: "t \<in> OPERATORS \<Longrightarrow> \<not> is_number t"
  by (auto simp: OPERATORS_def is_number_def Decimal_of_str_def unsigned_literal_def
      Let_def is_digit_def)

lemma sanitize_number_is_number: "sanitize_number text = Inr v \<Longrightarrow> is_number v"
proof -
  assume "sanitize_number text = Inr v"
  then obtain d where "v = format_decimal d"
    by (auto simp: sanitize_number_def split: option.splits)
  then show ?thesis
    using Decimal_of_str_format_decimal [of d] by (simp add: is_number_def)
qed

lemma pairs_alternates: "operand_operator_pairs ts \<Longrightarrow> alternates ts"
  by (induction ts rule: operand_operator_pairs.induct) auto

lemma pairs_last:
  "operand_operator_pairs ts \<Longrightarrow> ts \<noteq> [] \<Longrightarrow> last ts \<in> OPERATORS"
  by (induction ts rule: operand_operator_pairs.induct) auto

lemma pairs_append:
  "operand_operator_pairs xs \<Longrightarrow> operand_operator_pairs ys \<Longrightarrow>
   operand_operator_pairs (xs @ ys)"
  by (induction xs rule: operand_operator_pairs.induct) auto

lemma pairs_apply_operator:
  assumes "operand_operator_pairs (tokens st)" and "op \<in> OPERATORS"
  shows "operand_operator_pairs (tokens (snd (apply_operator op st)))"
proof -
  let ?r = "reset_on_error st"
  have r: "operand_operator_pairs (tokens ?r)"
    using assms(1) by (simp add: tokens_reset_on_error)
  show ?thesis
  proof (cases "sanitize_number (current ?r)")
    case (Inl e)
    then show ?thesis using r by (simp add: apply_operator_def commit_current_def)
  next
    case (Inr v)
    then have v: "is_number v" by (rule sanitize_number_is_number)
    then have nv: "v \<notin> OPERATORS" using operator_not_number by blast
    have p: "place_value v (tokens ?r) = tokens ?r @ [v]"
      using pairs_last [OF r] by (simp add: place_value_def)
    have "operand_operator_pairs (tokens ?r @ [v, op])"
      using r v assms(2) by (intro pairs_append) simp_all
    then show ?thesis
      using Inr p nv by (simp add: apply_operator_def commit_current_def Let_def)
  qed
qed

lemma handle_cases:
  assumes "\<And>d. P (input_digit d st)" and "P (input_decimal_point st)"
    and "\<And>op. op \<in> OPERATORS \<Longrightarrow> P (snd (apply_operator op st))"
    and "\<And>h. dispatcher fl command = Some h \<Longrightarrow> P (snd (h st))"
    and "P st"
  shows "P (snd (handle fl command st))"
  by (simp add: handle_def assms split: option.splits)

lemma pairs_handle:
  assumes "operand_operator_pairs (tokens st)"
  shows "operand_operator_pairs (tokens (snd (handle fl command st)))"
proof -
  have r: "operand_operator_pairs (tokens (reset_on_error st))"
    using assms by (simp add: tokens_reset_on_error)
  have d: "operand_operator_pairs (tokens (snd (h st)))" if "dispatcher fl command = Some h" for h
    using tokens_dispatcher [OF that, of st] r by auto
  show ?thesis
    by (rule handle_cases)
       (simp_all add: r d pairs_apply_operator assms tokens_input_digit
          tokens_input_decimal_point)
qed

lemma reachable_pairs: "reachable fl st \<Longrightarrow> operand_operator_pairs (tokens st)"
proof (induction rule: reachable.induct)
  case reachable_init
  show ?case by (simp add: initial_state_def)
next
  case (reachable_step st command)
  then show ?case by (simp add: snd_process pairs_handle)
qed

lemma alternates_nth:
  "alternates ts \<Longrightarrow> i < length ts \<Longrightarrow>
   (if even i then is_number (ts ! i) else ts ! i \<in> OPERATORS)"
proof (induction ts arbitrary: i rule: alternates.induct)
  case 1
  then show ?case by simp
next
  case (2 n)
  then show ?case by simp
next
  case (3 n op ts)
  show ?case
  proof (cases i)
    case 0
    then show ?thesis using 3 by simp
  next
    case (Suc j)
    show ?thesis
    proof (cases j)
      case 0
      then show ?thesis using 3 Suc by simp
    next
      case (Suc k)
      then have "k < length ts" using 3(3) \<open>i = Suc j\<close> by simp
      then have "if even k then is_number (ts ! k) else ts ! k \<in> OPERATORS"
        using 3 by simp
      then show ?thesis using Suc \<open>i = Suc j\<close> by simp
    qed
  qed
qed

text \<open>
  C7. In every reachable state the tokens alternate between numbers (strings the decimal
  constructor accepts, none of them an operator) and operators, starting with a number:
  the entries at even positions are numbers, those at odd positions operators. So the
  list never starts with an operator and no operator stands next to another: an operator
  without a right operand can only be the last entry.
\<close>

theorem tokens_alternate:
  assumes "reachable fl st"
  shows "alternates (tokens st)
       \<and> (\<forall>i < length (tokens st).
            if even i then is_number (tokens st ! i) \<and> tokens st ! i \<notin> OPERATORS
            else tokens st ! i \<in> OPERATORS)
       \<and> (tokens st = [] \<or> hd (tokens st) \<notin> OPERATORS)
       \<and> (\<forall>i. Suc i < length (tokens st) \<and> tokens st ! i \<in> OPERATORS
              \<longrightarrow> tokens st ! Suc i \<notin> OPERATORS)"
proof -
  have a: "alternates (tokens st)"
    using reachable_pairs [OF assms] by (rule pairs_alternates)
  have n: "if even i then is_number (tokens st ! i) \<and> tokens st ! i \<notin> OPERATORS
            else tokens st ! i \<in> OPERATORS" if "i < length (tokens st)" for i
    using alternates_nth [OF a that] operator_not_number by auto
  have h: "tokens st = [] \<or> hd (tokens st) \<notin> OPERATORS"
  proof (cases "tokens st")
    case Nil
    then show ?thesis by simp
  next
    case (Cons t ts)
    then show ?thesis using n [of 0] by simp
  qed
  have s: "tokens st ! Suc i \<notin> OPERATORS"
    if "Suc i < length (tokens st) \<and> tokens st ! i \<in> OPERATORS" for i
  proof -
    have "odd i" using n [of i] that by (auto split: if_splits)
    then show ?thesis using n [of "Suc i"] that by simp
  qed
  show ?thesis using a n h s by blast
qed

theorem tokens_alternate_witness:
  "reachable exact_literal (press exact_literal [''1'', ''+'', ''2'', ''*''] initial_state)
   \<and> tokens (press exact_literal [''1'', ''+'', ''2'', ''*''] initial_state)
       = [''1'', ''+'', ''2'', ''*'']
   \<and> alternates [''1'', ''+'', ''2'', ''*'']"
proof -
  have r: "reachable exact_literal (press exact_literal [''1'', ''+'', ''2'', ''*''] initial_state)"
    by (rule reachable_press, rule reachable_init)
  have t: "tokens (press exact_literal [''1'', ''+'', ''2'', ''*''] initial_state)
       = [''1'', ''+'', ''2'', ''*'']"
    by code_simp
  show ?thesis
    using r t tokens_alternate [OF r] by simp
qed

section \<open>Evaluation with precedence\<close>








text \<open>Lexing a token that is followed by the end of the input or by a blank.\<close>

definition boundary :: "string \<Rightarrow> bool" where
  "boundary rest = (rest = [] \<or> take 1 rest = '' '')"

lemma boundary_simps [simp]: "boundary []" "boundary (CHR '' '' # s)"
  by (simp_all add: boundary_def)

lemma not_number_char_space [simp]: "\<not> number_char CHR '' ''"
  by (simp add: number_char_def is_digit_def)





lemma not_number_char_minus [simp]: "\<not> number_char CHR ''-''"
  by (simp add: number_char_def is_digit_def)







































section \<open>Rounding to the context precision\<close>





section \<open>The value of a decimal\<close>

definition dec_value :: "decimal \<Rightarrow> real" where
  "dec_value d = (if dsign d then - 1 else 1) * real (dint d) * 10 powi dexp d"










lemma value_copy_negate [simp]: "dec_value (copy_negate d) = - dec_value d"
  by (simp add: copy_negate_def dec_value_def)




section \<open>Division\<close>









section \<open>The arithmetic of the evaluator\<close>






end
